theory Spec2Isabelle
  imports Complex_Main "HOL-Library.Sublist"
begin

section \<open>Data model of \<^verbatim>\<open>disaster_environment.py\<close>\<close>

text \<open>
  Python floats are modelled as \<^typ>\<open>real\<close>: rounding, NaN and infinities are outside
  the model. Python's unbounded \<^verbatim>\<open>int\<close> is \<^typ>\<open>int\<close>. Exceptions are values of
  \<open>error\<close>, and a function that can raise returns \<open>error + 'a\<close> with \<open>Inl\<close> for
  the exception. The two ambient sources of the module, \<^verbatim>\<open>random\<close> and
  \<^verbatim>\<open>datetime.now()\<close>, are explicit inputs. Console output is not modelled.
\<close>

datatype error = ZeroDivisionError | IndexError

datatype DisasterType = FLOOD | EARTHQUAKE | FIRE | NONE_TYPE

datatype SeverityLevel = NONE | LOW | MEDIUM | HIGH | CRITICAL

text \<open>The \<^verbatim>\<open>.value\<close> of each enum member.\<close>

fun disaster_type_value :: "DisasterType \<Rightarrow> string" where
  "disaster_type_value FLOOD = ''flood''"
| "disaster_type_value EARTHQUAKE = ''earthquake''"
| "disaster_type_value FIRE = ''fire''"
| "disaster_type_value NONE_TYPE = ''none''"

fun severity_value :: "SeverityLevel \<Rightarrow> nat" where
  "severity_value NONE = 0"
| "severity_value LOW = 1"
| "severity_value MEDIUM = 2"
| "severity_value HIGH = 3"
| "severity_value CRITICAL = 4"

text \<open>The \<^verbatim>\<open>.name\<close> of a severity level.\<close>

fun severity_name :: "SeverityLevel \<Rightarrow> string" where
  "severity_name NONE = ''NONE''"
| "severity_name LOW = ''LOW''"
| "severity_name MEDIUM = ''MEDIUM''"
| "severity_name HIGH = ''HIGH''"
| "severity_name CRITICAL = ''CRITICAL''"

text \<open>
  \<^verbatim>\<open>class Location\<close>: the fields \<^verbatim>\<open>x\<close>, \<^verbatim>\<open>y\<close>, \<^verbatim>\<open>name\<close>. Every
  location of this program is built with a non-empty literal name, so the fallback
  \<^verbatim>\<open>name or f"Location({x}, {y})"\<close> is never taken.
\<close>

record Location =
  loc_x :: real
  loc_y :: real
  loc_name :: string

text \<open>A reading of \<^verbatim>\<open>datetime.now()\<close>, in clock ticks.\<close>

type_synonym timestamp = nat

record DisasterEvent =
  disaster_type :: DisasterType
  severity :: SeverityLevel
  location :: Location
  timestamp :: timestamp
  active :: bool

text \<open>
  \<^verbatim>\<open>DisasterEvent.__init__\<close>: \<^verbatim>\<open>timestamp or datetime.now()\<close> (a datetime is
  always truthy), \<^verbatim>\<open>active = True\<close>. The argument \<open>now\<close> is what the clock
  reads at that moment.
\<close>

definition DisasterEvent_init ::
  "DisasterType \<Rightarrow> SeverityLevel \<Rightarrow> Location \<Rightarrow> timestamp option \<Rightarrow> timestamp \<Rightarrow> DisasterEvent" where
  "DisasterEvent_init dtype sev loc ts now =
     \<lparr>disaster_type = dtype, severity = sev, location = loc,
      timestamp = (case ts of None \<Rightarrow> now | Some t \<Rightarrow> t), active = True\<rparr>"

record EnvironmentalConditions =
  cond_location :: Location
  temperature :: real
  humidity :: real
  wind_speed :: real
  water_level :: real
  smoke_level :: real
  seismic_activity :: real

text \<open>
  The random source: \<open>rnd k\<close> is the \<open>k\<close>-th value \<^verbatim>\<open>random.random()\<close> will
  return from now on (each in \<open>[0, 1)\<close>, which no property below depends on).
  \<^verbatim>\<open>random.uniform(a, b)\<close> is \<^verbatim>\<open>a + (b - a) * random()\<close>; a function that draws
  \<open>n\<close> values hands the source on advanced by \<open>n\<close>.
\<close>

type_synonym rng = "nat \<Rightarrow> real"

definition uniform :: "real \<Rightarrow> real \<Rightarrow> real \<Rightarrow> real" where
  "uniform a b u = a + (b - a) * u"

definition advance :: "nat \<Rightarrow> rng \<Rightarrow> rng" where
  "advance n rnd = (\<lambda>k. rnd (k + n))"

definition EnvironmentalConditions_init :: "rng \<Rightarrow> Location \<Rightarrow> EnvironmentalConditions" where
  "EnvironmentalConditions_init rnd loc =
     \<lparr>cond_location = loc,
      temperature = uniform 15 35 (rnd 0),
      humidity = uniform 30 90 (rnd 1),
      wind_speed = uniform 0 50 (rnd 2),
      water_level = uniform 0 100 (rnd 3),
      smoke_level = uniform 0 100 (rnd 4),
      seismic_activity = uniform 0 10 (rnd 5)\<rparr>"

text \<open>
  \<^verbatim>\<open>EnvironmentalConditions.update\<close>: six perturbations, then six clamps
  \<^verbatim>\<open>max(0, min(hi, v))\<close>.
\<close>

definition perturb :: "rng \<Rightarrow> EnvironmentalConditions \<Rightarrow> EnvironmentalConditions" where
  "perturb rnd c =
     c\<lparr>temperature := temperature c + uniform (-2) 2 (rnd 0),
       humidity := humidity c + uniform (-5) 5 (rnd 1),
       wind_speed := wind_speed c + uniform (-5) 5 (rnd 2),
       water_level := water_level c + uniform (-10) 10 (rnd 3),
       smoke_level := smoke_level c + uniform (-10) 10 (rnd 4),
       seismic_activity := seismic_activity c + uniform (-1) 1 (rnd 5)\<rparr>"

definition clamp_all :: "EnvironmentalConditions \<Rightarrow> EnvironmentalConditions" where
  "clamp_all c =
     c\<lparr>temperature := max 0 (min 50 (temperature c)),
       humidity := max 0 (min 100 (humidity c)),
       wind_speed := max 0 (min 100 (wind_speed c)),
       water_level := max 0 (min 200 (water_level c)),
       smoke_level := max 0 (min 500 (smoke_level c)),
       seismic_activity := max 0 (min 10 (seismic_activity c))\<rparr>"

definition update :: "rng \<Rightarrow> EnvironmentalConditions \<Rightarrow> EnvironmentalConditions" where
  "update rnd c = clamp_all (perturb rnd c)"

text \<open>
  A sequence of \<^verbatim>\<open>update\<close> calls on one record, each with the source as it stands
  at that call; the result lists the record after each call.
\<close>

fun updates :: "rng list \<Rightarrow> EnvironmentalConditions \<Rightarrow> EnvironmentalConditions list" where
  "updates [] c = []"
| "updates (rnd # rnds) c = update rnd c # updates rnds (update rnd c)"

text \<open>The clamp ranges of the six fields.\<close>

definition within_clamp_ranges :: "EnvironmentalConditions \<Rightarrow> bool" where
  "within_clamp_ranges c \<longleftrightarrow>
     0 \<le> temperature c \<and> temperature c \<le> 50 \<and>
     0 \<le> humidity c \<and> humidity c \<le> 100 \<and>
     0 \<le> wind_speed c \<and> wind_speed c \<le> 100 \<and>
     0 \<le> water_level c \<and> water_level c \<le> 200 \<and>
     0 \<le> smoke_level c \<and> smoke_level c \<le> 500 \<and>
     0 \<le> seismic_activity c \<and> seismic_activity c \<le> 10"

section \<open>Severity\<close>

text \<open>
  \<^verbatim>\<open>DisasterEnvironment._calculate_severity\<close>. Python's \<^verbatim>\<open>/\<close> raises
  \<^verbatim>\<open>ZeroDivisionError\<close> on a zero divisor, which is reached only past the first return.
\<close>

definition calculate_severity :: "real \<Rightarrow> real \<Rightarrow> real \<Rightarrow> error + SeverityLevel" where
  "calculate_severity val threshold max_value =
     (if val < threshold then Inr NONE
      else if max_value - threshold = 0 then Inl ZeroDivisionError
      else
        let ratio = (val - threshold) / (max_value - threshold) in
        if ratio < 0.25 then Inr LOW
        else if ratio < 0.5 then Inr MEDIUM
        else if ratio < 0.75 then Inr HIGH
        else Inr CRITICAL)"

section \<open>The environment\<close>

text \<open>
  \<^verbatim>\<open>class DisasterEnvironment\<close>. The dict \<^verbatim>\<open>conditions\<close> is keyed by location
  objects (hashed by identity) and keeps insertion order, so it is an association list
  with one entry per location object, in the order of \<^verbatim>\<open>locations\<close>.
\<close>

record DisasterEnvironment =
  locations :: "Location list"
  conditions :: "(Location \<times> EnvironmentalConditions) list"
  active_disasters :: "DisasterEvent list"
  event_history :: "DisasterEvent list"

definition location_names :: "string list" where
  "location_names =
     [''Downtown'', ''Harbor District'', ''Industrial Zone'',
      ''Residential Area'', ''Hospital District'', ''Airport'',
      ''Shopping Center'', ''University Campus'', ''Power Plant'',
      ''Water Treatment Facility'']"

text \<open>
  The loop of \<^verbatim>\<open>_generate_locations\<close> over the indices of \<^verbatim>\<open>range(...)\<close>, with
  the list built so far; two draws per location.
\<close>

fun generate_loop :: "rng \<Rightarrow> nat list \<Rightarrow> Location list \<Rightarrow> Location list" where
  "generate_loop rnd [] locs = locs"
| "generate_loop rnd (i # idxs) locs =
     (let x = uniform 0 100 (rnd 0);
          y = uniform 0 100 (rnd 1)
      in generate_loop (advance 2 rnd) idxs
           (locs @ [\<lparr>loc_x = x, loc_y = y, loc_name = location_names ! i\<rparr>]))"

text \<open>\<^verbatim>\<open>range(k)\<close> is empty for \<open>k \<le> 0\<close>.\<close>

definition generate_locations :: "rng \<Rightarrow> int \<Rightarrow> Location list" where
  "generate_locations rnd num =
     generate_loop rnd [0 ..< nat (min num (int (length location_names)))] []"

text \<open>The dict comprehension of \<^verbatim>\<open>__init__\<close>: six draws per location.\<close>

fun init_conditions :: "rng \<Rightarrow> Location list \<Rightarrow> (Location \<times> EnvironmentalConditions) list" where
  "init_conditions rnd [] = []"
| "init_conditions rnd (loc # locs) =
     (loc, EnvironmentalConditions_init rnd loc) # init_conditions (advance 6 rnd) locs"

text \<open>
  \<^verbatim>\<open>DisasterEnvironment.__init__\<close>. No statement of it, nor of what it calls, raises:
  the result is always \<open>Inr\<close>.
\<close>

definition DisasterEnvironment_init :: "rng \<Rightarrow> int \<Rightarrow> error + DisasterEnvironment" where
  "DisasterEnvironment_init rnd num_locations =
     (let locs = generate_locations rnd num_locations in
      Inr \<lparr>locations = locs,
           conditions = init_conditions (advance (2 * length locs) rnd) locs,
           active_disasters = [],
           event_history = []\<rparr>)"

text \<open>\<^verbatim>\<open>update_conditions\<close>: every record is updated in place, in dict order.\<close>

fun update_all ::
  "rng \<Rightarrow> (Location \<times> EnvironmentalConditions) list \<Rightarrow> (Location \<times> EnvironmentalConditions) list" where
  "update_all rnd [] = []"
| "update_all rnd ((loc, c) # rest) = (loc, update rnd c) # update_all (advance 6 rnd) rest"

definition update_conditions :: "rng \<Rightarrow> DisasterEnvironment \<Rightarrow> DisasterEnvironment" where
  "update_conditions rnd env = env\<lparr>conditions := update_all rnd (conditions env)\<rparr>"

subsection \<open>Detection\<close>

text \<open>
  The three \<^verbatim>\<open>if\<close> blocks of the loop body of \<^verbatim>\<open>detect_disasters\<close>, each on the
  list \<^verbatim>\<open>new_disasters\<close> as it stands. \<open>now k\<close> is the clock reading when the
  \<open>k\<close>-th event of the call is constructed.
\<close>

definition check_flood ::
  "(nat \<Rightarrow> timestamp) \<Rightarrow> Location \<Rightarrow> EnvironmentalConditions \<Rightarrow> DisasterEvent list
     \<Rightarrow> error + DisasterEvent list" where
  "check_flood now loc c new_disasters =
     (if water_level c > 150 then
        (case calculate_severity (water_level c) 150 200 of
           Inl e \<Rightarrow> Inl e
         | Inr sev \<Rightarrow>
             Inr (new_disasters @
                  [DisasterEvent_init FLOOD sev loc None (now (length new_disasters))]))
      else Inr new_disasters)"

definition check_fire ::
  "(nat \<Rightarrow> timestamp) \<Rightarrow> Location \<Rightarrow> EnvironmentalConditions \<Rightarrow> DisasterEvent list
     \<Rightarrow> error + DisasterEvent list" where
  "check_fire now loc c new_disasters =
     (if smoke_level c > 300 then
        (case calculate_severity (smoke_level c) 300 500 of
           Inl e \<Rightarrow> Inl e
         | Inr sev \<Rightarrow>
             Inr (new_disasters @
                  [DisasterEvent_init FIRE sev loc None (now (length new_disasters))]))
      else Inr new_disasters)"

definition check_earthquake ::
  "(nat \<Rightarrow> timestamp) \<Rightarrow> Location \<Rightarrow> EnvironmentalConditions \<Rightarrow> DisasterEvent list
     \<Rightarrow> error + DisasterEvent list" where
  "check_earthquake now loc c new_disasters =
     (if seismic_activity c > 5.0 then
        (case calculate_severity (seismic_activity c) 5 10 of
           Inl e \<Rightarrow> Inl e
         | Inr sev \<Rightarrow>
             Inr (new_disasters @
                  [DisasterEvent_init EARTHQUAKE sev loc None (now (length new_disasters))]))
      else Inr new_disasters)"

fun detect_loop ::
  "(nat \<Rightarrow> timestamp) \<Rightarrow> (Location \<times> EnvironmentalConditions) list \<Rightarrow> DisasterEvent list
     \<Rightarrow> error + DisasterEvent list" where
  "detect_loop now [] new_disasters = Inr new_disasters"
| "detect_loop now ((loc, c) # rest) new_disasters =
     (case check_flood now loc c new_disasters of
        Inl e \<Rightarrow> Inl e
      | Inr n1 \<Rightarrow>
          (case check_fire now loc c n1 of
             Inl e \<Rightarrow> Inl e
           | Inr n2 \<Rightarrow>
               (case check_earthquake now loc c n2 of
                  Inl e \<Rightarrow> Inl e
                | Inr n3 \<Rightarrow> detect_loop now rest n3)))"

text \<open>
  \<^verbatim>\<open>detect_disasters\<close> returns the new events and leaves the environment with both
  lists extended. An exception in the loop would leave the environment as it was.
\<close>

definition detect_disasters ::
  "(nat \<Rightarrow> timestamp) \<Rightarrow> DisasterEnvironment \<Rightarrow> error + (DisasterEvent list \<times> DisasterEnvironment)" where
  "detect_disasters now env =
     (case detect_loop now (conditions env) [] of
        Inl e \<Rightarrow> Inl e
      | Inr new_disasters \<Rightarrow>
          Inr (new_disasters,
               env\<lparr>active_disasters := active_disasters env @ new_disasters,
                   event_history := event_history env @ new_disasters\<rparr>))"

text \<open>
  What the specification says detection yields, in its own words: per location, in
  registry order, flood when the water level exceeds 150, then fire when the smoke level
  exceeds 300, then earthquake when the seismic activity exceeds 5.0.
\<close>

definition spec_rules :: "Location \<times> EnvironmentalConditions \<Rightarrow> (DisasterType \<times> Location) list" where
  "spec_rules lc =
     (if water_level (snd lc) > 150 then [(FLOOD, fst lc)] else []) @
     (if smoke_level (snd lc) > 300 then [(FIRE, fst lc)] else []) @
     (if seismic_activity (snd lc) > 5.0 then [(EARTHQUAKE, fst lc)] else [])"

definition spec_detections ::
  "(Location \<times> EnvironmentalConditions) list \<Rightarrow> (DisasterType \<times> Location) list" where
  "spec_detections conds = concat (map spec_rules conds)"

definition event_kind :: "DisasterEvent \<Rightarrow> DisasterType \<times> Location" where
  "event_kind ev = (disaster_type ev, location ev)"

subsection \<open>Synthetic injection\<close>

text \<open>
  \<^verbatim>\<open>random.choice(seq)\<close> raises \<^verbatim>\<open>IndexError\<close> on an empty sequence and otherwise
  returns the element at a random index below \<^verbatim>\<open>len(seq)\<close>; \<open>r\<close> is the random
  integer the source yields for it.
\<close>

definition choice :: "nat \<Rightarrow> 'a list \<Rightarrow> error + 'a" where
  "choice r seq = (if seq = [] then Inl IndexError else Inr (seq ! (r mod length seq)))"

definition simulate_random_disaster ::
  "(nat \<Rightarrow> nat) \<Rightarrow> timestamp \<Rightarrow> DisasterEnvironment \<Rightarrow> error + (DisasterEvent \<times> DisasterEnvironment)" where
  "simulate_random_disaster bits now env =
     (case choice (bits 0) [FLOOD, EARTHQUAKE, FIRE] of
        Inl e \<Rightarrow> Inl e
      | Inr dtype \<Rightarrow>
          (case choice (bits 1) [LOW, MEDIUM, HIGH, CRITICAL] of
             Inl e \<Rightarrow> Inl e
           | Inr sev \<Rightarrow>
               (case choice (bits 2) (locations env) of
                  Inl e \<Rightarrow> Inl e
                | Inr loc \<Rightarrow>
                    (let event = DisasterEvent_init dtype sev loc None now in
                     Inr (event,
                          env\<lparr>active_disasters := active_disasters env @ [event],
                              event_history := event_history env @ [event]\<rparr>)))))"

subsection \<open>Sequences of operations on the event store\<close>

text \<open>
  The methods of the environment that write anything, each with the ambient inputs of
  that call. A call that raises has appended nothing and leaves the environment as it was.
\<close>

datatype store_op =
  UpdateConditions rng
| DetectDisasters "nat \<Rightarrow> timestamp"
| SimulateRandomDisaster "nat \<Rightarrow> nat" timestamp

fun apply_op :: "DisasterEnvironment \<Rightarrow> store_op \<Rightarrow> DisasterEnvironment" where
  "apply_op env (UpdateConditions rnd) = update_conditions rnd env"
| "apply_op env (DetectDisasters now) =
     (case detect_disasters now env of Inl e \<Rightarrow> env | Inr (new_disasters, env') \<Rightarrow> env')"
| "apply_op env (SimulateRandomDisaster bits now) =
     (case simulate_random_disaster bits now env of Inl e \<Rightarrow> env | Inr (event, env') \<Rightarrow> env')"

definition run_ops :: "DisasterEnvironment \<Rightarrow> store_op list \<Rightarrow> DisasterEnvironment" where
  "run_ops env ops = foldl apply_op env ops"

section \<open>The monitoring agent of \<^verbatim>\<open>sensor_agent.py\<close>\<close>

text \<open>
  \<^verbatim>\<open>class SensorAgent\<close>: the fields its own \<^verbatim>\<open>__init__\<close> sets. The base class
  and the transport belong to the agent runtime; a sent message is recorded in an outbox.
\<close>

record event_log_entry =
  log_timestamp :: timestamp
  log_type :: string
  log_severity :: string
  log_location :: string
  log_coordinates :: "real \<times> real"

record report_body =
  event_type :: string
  body_disaster_type :: string
  body_severity :: string
  body_location :: string
  body_coordinates :: "real \<times> real"
  body_timestamp :: timestamp
  sensor_id :: string

record Message =
  msg_to :: string
  msg_metadata :: "(string \<times> string) list"
  msg_body :: report_body

record SensorAgent =
  jid :: string
  num_locations :: int
  monitoring_interval :: real
  coordinator_jid :: "string option"
  simulate_disasters :: bool
  environment :: DisasterEnvironment
  detected_events :: "event_log_entry list"

text \<open>
  \<^verbatim>\<open>SensorAgent.__init__\<close> stores its arguments as they are and builds the
  environment; an exception of the environment's constructor would propagate.
\<close>

definition SensorAgent_init ::
  "rng \<Rightarrow> string \<Rightarrow> int \<Rightarrow> real \<Rightarrow> string option \<Rightarrow> bool \<Rightarrow> error + SensorAgent" where
  "SensorAgent_init rnd j n interval coordinator simulate =
     (case DisasterEnvironment_init rnd n of
        Inl e \<Rightarrow> Inl e
      | Inr env \<Rightarrow>
          Inr \<lparr>jid = j, num_locations = n, monitoring_interval = interval,
               coordinator_jid = coordinator, simulate_disasters = simulate,
               environment = env, detected_events = []\<rparr>)"

text \<open>\<^verbatim>\<open>_log_disaster_event\<close> appends one entry to the agent's event log.\<close>

definition log_disaster_event :: "SensorAgent \<Rightarrow> DisasterEvent \<Rightarrow> SensorAgent" where
  "log_disaster_event agent disaster =
     agent\<lparr>detected_events := detected_events agent @
       [\<lparr>log_timestamp = timestamp disaster,
         log_type = disaster_type_value (disaster_type disaster),
         log_severity = severity_name (severity disaster),
         log_location = loc_name (location disaster),
         log_coordinates = (loc_x (location disaster), loc_y (location disaster))\<rparr>]\<rparr>"

text \<open>
  \<^verbatim>\<open>_report_disaster\<close>: a message is sent only when \<^verbatim>\<open>coordinator_jid\<close> is truthy
  (neither \<^verbatim>\<open>None\<close> nor the empty string). The result is what was sent.
\<close>

definition report_disaster :: "SensorAgent \<Rightarrow> DisasterEvent \<Rightarrow> Message list" where
  "report_disaster agent disaster =
     (case coordinator_jid agent of
        None \<Rightarrow> []
      | Some recipient \<Rightarrow>
          if recipient = [] then []
          else
            [\<lparr>msg_to = recipient,
              msg_metadata = [(''performative'', ''inform''),
                              (''ontology'', ''disaster-response''),
                              (''protocol'', ''disaster-detection'')],
              msg_body =
                \<lparr>event_type = ''disaster_detected'',
                 body_disaster_type = disaster_type_value (disaster_type disaster),
                 body_severity = severity_name (severity disaster),
                 body_location = loc_name (location disaster),
                 body_coordinates = (loc_x (location disaster), loc_y (location disaster)),
                 body_timestamp = timestamp disaster,
                 sensor_id = jid agent\<rparr>\<rparr>])"

text \<open>
  What one execution of \<^verbatim>\<open>EnvironmentMonitoringBehaviour.run\<close> leaves behind: the
  agent as mutated, the events detection returned, whether
  \<^verbatim>\<open>simulate_random_disaster\<close> was called, the exception that ended the tick (if
  any), and the messages sent.
\<close>

record tick_result =
  agent_after :: SensorAgent
  detected :: "DisasterEvent list"
  inject_called :: bool
  raised :: "error option"
  sent :: "Message list"

text \<open>
  \<^verbatim>\<open>run\<close>. The draw of the gate, \<^verbatim>\<open>random.random()\<close>, is the next value of the
  source after the six draws per record of \<^verbatim>\<open>update_conditions\<close>, and it is taken
  only when the first condition holds. \<open>bits\<close> are the random integers of the three
  \<^verbatim>\<open>random.choice\<close> calls; \<open>now k\<close> is the clock reading at the \<open>k\<close>-th event
  constructed in the tick. The source logs and reports each new event in turn; reporting
  reads only \<^verbatim>\<open>jid\<close> and \<^verbatim>\<open>coordinator_jid\<close>, which logging leaves alone, so
  the events are logged first and reported afterwards.
\<close>

definition run :: "rng \<Rightarrow> (nat \<Rightarrow> timestamp) \<Rightarrow> (nat \<Rightarrow> nat) \<Rightarrow> SensorAgent \<Rightarrow> tick_result" where
  "run rnd now bits agent =
     (let env1 = update_conditions rnd (environment agent) in
      case detect_disasters now env1 of
        Inl e \<Rightarrow>
          \<lparr>agent_after = agent\<lparr>environment := env1\<rparr>, detected = [],
           inject_called = False, raised = Some e, sent = []\<rparr>
      | Inr (new_disasters, env2) \<Rightarrow>
          (let agent2 = foldl log_disaster_event (agent\<lparr>environment := env2\<rparr>) new_disasters;
               sent2 = concat (map (report_disaster agent2) new_disasters)
           in
             if simulate_disasters agent2 \<and> length (active_disasters (environment agent2)) < 3
             then
               if rnd (6 * length (conditions (environment agent))) < 0.1 then
                 (case simulate_random_disaster bits (now (length new_disasters))
                         (environment agent2) of
                    Inl e \<Rightarrow>
                      \<lparr>agent_after = agent2, detected = new_disasters,
                       inject_called = True, raised = Some e, sent = sent2\<rparr>
                  | Inr (simulated, env3) \<Rightarrow>
                      \<lparr>agent_after = log_disaster_event (agent2\<lparr>environment := env3\<rparr>) simulated,
                       detected = new_disasters, inject_called = True, raised = None,
                       sent = sent2 @ report_disaster agent2 simulated\<rparr>)
               else
                 \<lparr>agent_after = agent2, detected = new_disasters,
                  inject_called = False, raised = None, sent = sent2\<rparr>
             else
               \<lparr>agent_after = agent2, detected = new_disasters,
                inject_called = False, raised = None, sent = sent2\<rparr>))"

section \<open>Properties of the severity computation\<close>

lemma calculate_severity_below:
  "val < threshold \<Longrightarrow> calculate_severity val threshold max_value = Inr NONE"
  by (simp add: calculate_severity_def)

lemma calculate_severity_zero_div:
  "threshold \<le> val \<Longrightarrow> calculate_severity val threshold threshold = Inl ZeroDivisionError"
  by (simp add: calculate_severity_def)

text \<open>
  Past the two guards the result is the bucket of the ratio; \<open>r\<close> stands for the
  ratio so that the bucket comparisons stay as the source writes them.
\<close>

lemma calculate_severity_ratio:
  assumes "threshold \<le> val" and "max_value \<noteq> threshold"
    and "r = (val - threshold) / (max_value - threshold)"
  shows "calculate_severity val threshold max_value =
           Inr (if r < 0.25 then LOW else if r < 0.5 then MEDIUM
                else if r < 0.75 then HIGH else CRITICAL)"
proof -
  have "\<not> val < threshold" and "max_value - threshold \<noteq> 0"
    using assms(1,2) by simp_all
  then show ?thesis
    unfolding calculate_severity_def Let_def assms(3) by (simp only: if_False) simp
qed

text \<open>
  Claim C2, as stated, at \<open>max_value = threshold\<close>: the value is not below the
  threshold, the divisor is zero, and the call raises instead of returning a level.
\<close>

theorem calculate_severity_buckets_counterexample:
  "calculate_severity 1 0 0 = Inl ZeroDivisionError"
  by (simp add: calculate_severity_def)

text \<open>
  Claim C2, amended: a value below the threshold gives \<open>NONE\<close>; otherwise, provided
  \<open>max_value \<noteq> threshold\<close>, with
  \<open>ratio = (value - threshold) / (max_value - threshold)\<close> the result is \<open>LOW\<close> when
  \<open>ratio < 0.25\<close>, \<open>MEDIUM\<close> when \<open>0.25 \<le> ratio < 0.5\<close>, \<open>HIGH\<close> when
  \<open>0.5 \<le> ratio < 0.75\<close> and \<open>CRITICAL\<close> when \<open>ratio \<ge> 0.75\<close>; a ratio of exactly
  0.25, 0.5, 0.75 gives \<open>MEDIUM\<close>, \<open>HIGH\<close>, \<open>CRITICAL\<close>.
\<close>

theorem calculate_severity_buckets:
  "(val < threshold \<longrightarrow> calculate_severity val threshold max_value = Inr NONE) \<and>
   (threshold \<le> val \<and> max_value \<noteq> threshold \<longrightarrow>
      (let ratio = (val - threshold) / (max_value - threshold) in
         (ratio < 0.25 \<longrightarrow> calculate_severity val threshold max_value = Inr LOW) \<and>
         (0.25 \<le> ratio \<and> ratio < 0.5 \<longrightarrow> calculate_severity val threshold max_value = Inr MEDIUM) \<and>
         (0.5 \<le> ratio \<and> ratio < 0.75 \<longrightarrow> calculate_severity val threshold max_value = Inr HIGH) \<and>
         (0.75 \<le> ratio \<longrightarrow> calculate_severity val threshold max_value = Inr CRITICAL) \<and>
         (ratio = 0.25 \<longrightarrow> calculate_severity val threshold max_value = Inr MEDIUM) \<and>
         (ratio = 0.5 \<longrightarrow> calculate_severity val threshold max_value = Inr HIGH) \<and>
         (ratio = 0.75 \<longrightarrow> calculate_severity val threshold max_value = Inr CRITICAL)))"
proof (intro conjI impI)
  assume "val < threshold"
  then show "calculate_severity val threshold max_value = Inr NONE"
    by (rule calculate_severity_below)
next
  assume a: "threshold \<le> val \<and> max_value \<noteq> threshold"
  define r where "r = (val - threshold) / (max_value - threshold)"
  have eq: "calculate_severity val threshold max_value =
           Inr (if r < 0.25 then LOW else if r < 0.5 then MEDIUM
                else if r < 0.75 then HIGH else CRITICAL)"
    using a r_def by (intro calculate_severity_ratio) simp_all
  have "(r < 0.25 \<longrightarrow> calculate_severity val threshold max_value = Inr LOW) \<and>
         (0.25 \<le> r \<and> r < 0.5 \<longrightarrow> calculate_severity val threshold max_value = Inr MEDIUM) \<and>
         (0.5 \<le> r \<and> r < 0.75 \<longrightarrow> calculate_severity val threshold max_value = Inr HIGH) \<and>
         (0.75 \<le> r \<longrightarrow> calculate_severity val threshold max_value = Inr CRITICAL) \<and>
         (r = 0.25 \<longrightarrow> calculate_severity val threshold max_value = Inr MEDIUM) \<and>
         (r = 0.5 \<longrightarrow> calculate_severity val threshold max_value = Inr HIGH) \<and>
         (r = 0.75 \<longrightarrow> calculate_severity val threshold max_value = Inr CRITICAL)"
    unfolding eq by auto
  then show "let ratio = (val - threshold) / (max_value - threshold) in
         (ratio < 0.25 \<longrightarrow> calculate_severity val threshold max_value = Inr LOW) \<and>
         (0.25 \<le> ratio \<and> ratio < 0.5 \<longrightarrow> calculate_severity val threshold max_value = Inr MEDIUM) \<and>
         (0.5 \<le> ratio \<and> ratio < 0.75 \<longrightarrow> calculate_severity val threshold max_value = Inr HIGH) \<and>
         (0.75 \<le> ratio \<longrightarrow> calculate_severity val threshold max_value = Inr CRITICAL) \<and>
         (ratio = 0.25 \<longrightarrow> calculate_severity val threshold max_value = Inr MEDIUM) \<and>
         (ratio = 0.5 \<longrightarrow> calculate_severity val threshold max_value = Inr HIGH) \<and>
         (ratio = 0.75 \<longrightarrow> calculate_severity val threshold max_value = Inr CRITICAL)"
    unfolding Let_def r_def .
qed

theorem calculate_severity_buckets_witness:
  "calculate_severity 350 300 500 = Inr MEDIUM \<and> calculate_severity 149 150 200 = Inr NONE
   \<and> calculate_severity 151 150 200 = Inr LOW \<and> calculate_severity 8 5 10 = Inr HIGH
   \<and> calculate_severity 200 150 200 = Inr CRITICAL"
  using calculate_severity_buckets [of 350 300 500] calculate_severity_buckets [of 149 150 200]
    calculate_severity_buckets [of 151 150 200] calculate_severity_buckets [of 8 5 10]
    calculate_severity_buckets [of 200 150 200]
  by (simp add: Let_def)

text \<open>
  Claim C4, as stated, at \<open>value = threshold = max_value\<close>: the call raises
  \<^verbatim>\<open>ZeroDivisionError\<close>.
\<close>

theorem calculate_severity_defined_counterexample:
  "calculate_severity 5 5 5 = Inl ZeroDivisionError"
  by (simp add: calculate_severity_def)

text \<open>
  Claim C4, amended: the computation raises exactly when \<open>max_value = threshold\<close> and
  the value is not below the threshold, and then it raises \<^verbatim>\<open>ZeroDivisionError\<close>.
  For \<open>max_value \<noteq> threshold\<close> it returns a severity level for every value; a value
  below the threshold gives \<open>NONE\<close> whatever \<open>max_value\<close> is, and a value at or above
  \<open>max_value\<close>, with \<open>max_value > threshold\<close>, gives \<open>CRITICAL\<close>.
\<close>

theorem calculate_severity_defined:
  "(calculate_severity val threshold max_value = Inl ZeroDivisionError
      \<longleftrightarrow> threshold \<le> val \<and> max_value = threshold) \<and>
   (max_value \<noteq> threshold \<longrightarrow> (\<exists>s. calculate_severity val threshold max_value = Inr s)) \<and>
   (val < threshold \<longrightarrow> calculate_severity val threshold max_value = Inr NONE) \<and>
   (threshold < max_value \<and> max_value \<le> val \<longrightarrow>
      calculate_severity val threshold max_value = Inr CRITICAL)"
proof -
  define r where "r = (val - threshold) / (max_value - threshold)"
  have ratio: "threshold \<le> val \<Longrightarrow> max_value \<noteq> threshold \<Longrightarrow>
      calculate_severity val threshold max_value =
           Inr (if r < 0.25 then LOW else if r < 0.5 then MEDIUM
                else if r < 0.75 then HIGH else CRITICAL)"
    by (rule calculate_severity_ratio [OF _ _ r_def])
  have one: "threshold < max_value \<Longrightarrow> max_value \<le> val \<Longrightarrow> 1 \<le> r"
    unfolding r_def by simp
  have 1: "calculate_severity val threshold max_value = Inl ZeroDivisionError
      \<longleftrightarrow> threshold \<le> val \<and> max_value = threshold"
    using ratio calculate_severity_below [of val threshold max_value]
      calculate_severity_zero_div [of threshold val]
    by (cases "val < threshold"; cases "max_value = threshold") auto
  have 2: "max_value \<noteq> threshold \<longrightarrow> (\<exists>s. calculate_severity val threshold max_value = Inr s)"
    using ratio calculate_severity_below [of val threshold max_value]
    by (cases "val < threshold") auto
  have 3: "val < threshold \<longrightarrow> calculate_severity val threshold max_value = Inr NONE"
    by (simp add: calculate_severity_below)
  have 4: "threshold < max_value \<and> max_value \<le> val \<longrightarrow>
      calculate_severity val threshold max_value = Inr CRITICAL"
  proof
    assume a: "threshold < max_value \<and> max_value \<le> val"
    then have "1 \<le> r" using one by simp
    moreover have "threshold \<le> val" "max_value \<noteq> threshold" using a by simp_all
    ultimately show "calculate_severity val threshold max_value = Inr CRITICAL"
      using ratio by simp
  qed
  show ?thesis using 1 2 3 4 by blast
qed

theorem calculate_severity_defined_witness:
  "calculate_severity 250 150 200 = Inr CRITICAL \<and> calculate_severity 0 150 200 = Inr NONE \<and>
   (\<exists>s. calculate_severity 7 5 10 = Inr s) \<and> calculate_severity 7 5 5 = Inl ZeroDivisionError"
  using calculate_severity_defined [of 250 150 200] calculate_severity_defined [of 0 150 200]
    calculate_severity_defined [of 7 5 10] calculate_severity_defined [of 7 5 5]
  by simp

text \<open>
  Claim C5: for \<open>max_value > threshold\<close> the severity is non-decreasing in the value,
  in the order of the enum values \<open>NONE < LOW < MEDIUM < HIGH < CRITICAL\<close>.
\<close>

theorem calculate_severity_mono:
  assumes "threshold < max_value" and "v1 \<le> v2"
  shows "\<exists>s1 s2. calculate_severity v1 threshold max_value = Inr s1 \<and>
           calculate_severity v2 threshold max_value = Inr s2 \<and>
           severity_value s1 \<le> severity_value s2"
proof -
  define r1 where "r1 = (v1 - threshold) / (max_value - threshold)"
  define r2 where "r2 = (v2 - threshold) / (max_value - threshold)"
  have le: "r1 \<le> r2"
    unfolding r1_def r2_def using assms by (simp add: divide_right_mono)
  have ne: "max_value \<noteq> threshold" using assms(1) by simp
  show ?thesis
  proof (cases "v1 < threshold")
    case True
    then have s1: "calculate_severity v1 threshold max_value = Inr NONE"
      by (rule calculate_severity_below)
    show ?thesis
    proof (cases "v2 < threshold")
      case True
      then show ?thesis using s1 by (simp add: calculate_severity_below)
    next
      case False
      then have "threshold \<le> v2" by simp
      then have "calculate_severity v2 threshold max_value =
           Inr (if r2 < 0.25 then LOW else if r2 < 0.5 then MEDIUM
                else if r2 < 0.75 then HIGH else CRITICAL)"
        by (rule calculate_severity_ratio [OF _ ne r2_def])
      then show ?thesis
        using s1 by simp
    qed
  next
    case False
    then have "threshold \<le> v1" and "threshold \<le> v2" using assms(2) by simp_all
    have "calculate_severity v1 threshold max_value =
           Inr (if r1 < 0.25 then LOW else if r1 < 0.5 then MEDIUM
                else if r1 < 0.75 then HIGH else CRITICAL)"
      using \<open>threshold \<le> v1\<close> by (rule calculate_severity_ratio [OF _ ne r1_def])
    moreover have "calculate_severity v2 threshold max_value =
           Inr (if r2 < 0.25 then LOW else if r2 < 0.5 then MEDIUM
                else if r2 < 0.75 then HIGH else CRITICAL)"
      using \<open>threshold \<le> v2\<close> by (rule calculate_severity_ratio [OF _ ne r2_def])
    ultimately show ?thesis
      using le by auto
  qed
qed

theorem calculate_severity_mono_witness:
  "\<exists>s1 s2. calculate_severity 160 150 200 = Inr s1 \<and>
           calculate_severity 190 150 200 = Inr s2 \<and>
           severity_value s1 \<le> severity_value s2"
  using calculate_severity_mono [of 150 200 160 190] by simp

section \<open>Properties of the condition records\<close>

lemma update_within_clamp_ranges: "within_clamp_ranges (update rnd c)"
  by (simp add: update_def clamp_all_def within_clamp_ranges_def)

lemma updates_within_clamp_ranges:
  "c' \<in> set (updates rnds c) \<Longrightarrow> within_clamp_ranges c'"
  by (induction rnds arbitrary: c) (auto simp add: update_within_clamp_ranges)

lemma update_all_within_clamp_ranges:
  "(loc, c') \<in> set (update_all rnd conds) \<Longrightarrow> within_clamp_ranges c'"
  by (induction rnd conds rule: update_all.induct) (auto simp add: update_within_clamp_ranges)

lemma update_all_keys: "map fst (update_all rnd conds) = map fst conds"
  by (induction rnd conds rule: update_all.induct) auto

text \<open>
  Claim C3: whatever the record held and whatever the random source yields, after an
  \<^verbatim>\<open>update\<close> every field lies within its clamp range: temperature in \<open>[0, 50]\<close>,
  humidity and wind speed in \<open>[0, 100]\<close>, water level in \<open>[0, 200]\<close>, smoke level in
  \<open>[0, 500]\<close>, seismic activity in \<open>[0, 10]\<close>. This holds after each call of a
  sequence of calls, and for every record of the environment after
  \<^verbatim>\<open>update_conditions\<close>, which keeps the locations as they are.
\<close>

theorem update_keeps_clamp_ranges:
  "within_clamp_ranges (update rnd c) \<and>
   (\<forall>c' \<in> set (updates rnds c). within_clamp_ranges c') \<and>
   length (updates rnds c) = length rnds \<and>
   (\<forall>lc \<in> set (conditions (update_conditions rnd env)). within_clamp_ranges (snd lc)) \<and>
   map fst (conditions (update_conditions rnd env)) = map fst (conditions env)"
proof -
  have "length (updates rnds c) = length rnds"
    by (induction rnds arbitrary: c) auto
  moreover have "\<forall>lc \<in> set (conditions (update_conditions rnd env)). within_clamp_ranges (snd lc)"
    using update_all_within_clamp_ranges [of _ _ rnd "conditions env"]
    by (auto simp add: update_conditions_def)
  ultimately show ?thesis
    by (simp add: update_within_clamp_ranges updates_within_clamp_ranges
        update_all_keys update_conditions_def)
qed

theorem update_keeps_clamp_ranges_witness:
  "within_clamp_ranges (update (\<lambda>_. 1)
      \<lparr>cond_location = \<lparr>loc_x = 1, loc_y = 2, loc_name = ''Downtown''\<rparr>,
       temperature = 49, humidity = 3, wind_speed = 50, water_level = 195,
       smoke_level = 2, seismic_activity = 9.5\<rparr>) \<and>
   list_all within_clamp_ranges (updates [\<lambda>_. 1, \<lambda>_. 0]
      \<lparr>cond_location = \<lparr>loc_x = 1, loc_y = 2, loc_name = ''Downtown''\<rparr>,
       temperature = 49, humidity = 3, wind_speed = 50, water_level = 195,
       smoke_level = 2, seismic_activity = 9.5\<rparr>) \<and>
   length (updates [\<lambda>_. 1, \<lambda>_. 0]
      \<lparr>cond_location = \<lparr>loc_x = 1, loc_y = 2, loc_name = ''Downtown''\<rparr>,
       temperature = 49, humidity = 3, wind_speed = 50, water_level = 195,
       smoke_level = 2, seismic_activity = 9.5\<rparr>) = 2"
  using update_keeps_clamp_ranges [of "\<lambda>_. 1"
      "\<lparr>cond_location = \<lparr>loc_x = 1, loc_y = 2, loc_name = ''Downtown''\<rparr>,
       temperature = 49, humidity = 3, wind_speed = 50, water_level = 195,
       smoke_level = 2, seismic_activity = 9.5\<rparr>" "[\<lambda>_. 1, \<lambda>_. 0]"]
  by (simp add: list_all_iff)

section \<open>Properties of construction\<close>

lemma generate_loop_names:
  "map loc_name (generate_loop rnd idxs locs) = map loc_name locs @ map ((!) location_names) idxs"
  by (induction rnd idxs locs rule: generate_loop.induct) (auto simp add: Let_def)

lemma distinct_location_names: "distinct location_names"
  by (simp add: location_names_def)

lemma length_location_names: "length location_names = 10"
  by (simp add: location_names_def)

lemma generate_locations_names:
  "map loc_name (generate_locations rnd num) = take (nat (min num 10)) location_names"
proof -
  have "nat (min num 10) \<le> length location_names"
    by (simp add: length_location_names)
  then have "map ((!) location_names) [0 ..< nat (min num 10)] = take (nat (min num 10)) location_names"
    by (simp add: list_eq_iff_nth_eq)
  then show ?thesis
    by (simp add: generate_locations_def generate_loop_names length_location_names)
qed

lemma generate_locations_nonpositive: "n \<le> 0 \<Longrightarrow> generate_locations rnd n = []"
  by (simp add: generate_locations_def)

lemma init_conditions_keys: "map fst (init_conditions rnd locs) = locs"
  by (induction rnd locs rule: init_conditions.induct) auto

lemma init_conditions_location:
  "(loc, c) \<in> set (init_conditions rnd locs) \<Longrightarrow> cond_location c = loc"
  by (induction rnd locs rule: init_conditions.induct)
     (auto simp add: EnvironmentalConditions_init_def)

text \<open>
  Claim C10: construction always succeeds and creates \<open>min(n, 10)\<close> locations for a
  requested count \<open>n \<ge> 0\<close> (none for a negative \<open>n\<close>), so more than 10 requested
  yields 10; the locations carry the first built-in names, which are distinct, and the
  conditions hold exactly one record per location, in the same order, each recording
  its own location.
\<close>

theorem environment_location_count:
  "\<exists>env. DisasterEnvironment_init rnd n = Inr env \<and>
     length (locations env) = nat (min n 10) \<and>
     (0 \<le> n \<longrightarrow> int (length (locations env)) = min n 10) \<and>
     (10 < n \<longrightarrow> length (locations env) = 10) \<and>
     map loc_name (locations env) = take (nat (min n 10)) location_names \<and>
     distinct (map loc_name (locations env)) \<and>
     distinct (locations env) \<and>
     map fst (conditions env) = locations env \<and>
     (\<forall>lc \<in> set (conditions env). cond_location (snd lc) = fst lc)"
proof -
  define locs where "locs = generate_locations rnd n"
  define env where "env = \<lparr>locations = locs,
           conditions = init_conditions (advance (2 * length locs) rnd) locs,
           active_disasters = [], event_history = []\<rparr>"
  have init: "DisasterEnvironment_init rnd n = Inr env"
    by (simp add: DisasterEnvironment_init_def Let_def env_def locs_def)
  have names: "map loc_name locs = take (nat (min n 10)) location_names"
    unfolding locs_def by (rule generate_locations_names)
  have len: "length locs = nat (min n 10)"
    using arg_cong [OF names, of length] by (simp add: length_location_names)
  have dn: "distinct (map loc_name locs)"
    unfolding names using distinct_location_names by (rule distinct_take)
  then have dl: "distinct locs"
    by (rule distinct_map [THEN iffD1, THEN conjunct1])
  have own: "\<forall>lc \<in> set (conditions env). cond_location (snd lc) = fst lc"
    using init_conditions_location by (auto simp add: env_def)
  show ?thesis
    using init names len dn dl own by (intro exI [of _ env]) (simp add: env_def init_conditions_keys)
qed

theorem environment_location_count_witness:
  "\<exists>env. DisasterEnvironment_init (\<lambda>k. real k / 100) 12 = Inr env \<and>
     length (locations env) = 10 \<and>
     map loc_name (locations env) = location_names"
  using environment_location_count [of "\<lambda>k. real k / 100" 12]
  by (simp add: length_location_names) blast

text \<open>
  Claim C7, as stated, at zero requested locations: construction succeeds and yields an
  environment with no locations.
\<close>

theorem construction_accepts_any_configuration_counterexample:
  "DisasterEnvironment_init (\<lambda>k. 0) 0 =
     Inr \<lparr>locations = [], conditions = [], active_disasters = [], event_history = []\<rparr>"
  by (simp add: DisasterEnvironment_init_def generate_locations_def Let_def)

text \<open>
  Claim C7, amended: construction validates nothing. The environment's constructor
  succeeds for every requested count, and for a count of zero or less it yields an
  environment with no locations, no conditions and empty event lists. The agent's
  constructor succeeds for every tick interval, positive or not, stores the interval and
  the count as given, and holds the environment so built.
\<close>

theorem construction_accepts_any_configuration:
  "(\<exists>env. DisasterEnvironment_init rnd n = Inr env) \<and>
   (n \<le> 0 \<longrightarrow>
      DisasterEnvironment_init rnd n =
        Inr \<lparr>locations = [], conditions = [], active_disasters = [], event_history = []\<rparr>) \<and>
   (\<exists>agent. SensorAgent_init rnd j n interval coordinator simulate = Inr agent \<and>
      monitoring_interval agent = interval \<and> num_locations agent = n \<and>
      DisasterEnvironment_init rnd n = Inr (environment agent))"
  by (simp add: SensorAgent_init_def DisasterEnvironment_init_def Let_def
      generate_locations_nonpositive)

theorem construction_accepts_any_configuration_witness:
  "DisasterEnvironment_init (\<lambda>k. 1) (- 4) =
     Inr \<lparr>locations = [], conditions = [], active_disasters = [], event_history = []\<rparr> \<and>
   (\<exists>agent. SensorAgent_init (\<lambda>k. 1) ''sensor@host'' 0 (- 5) None False = Inr agent \<and>
      monitoring_interval agent = - 5 \<and> num_locations agent = 0)"
  using construction_accepts_any_configuration [of "\<lambda>k. 1" "- 4"]
    construction_accepts_any_configuration [of "\<lambda>k. 1" 0 "''sensor@host''" "- 5" None False]
  by simp blast

section \<open>Properties of detection\<close>

lemma calculate_severity_above:
  assumes "threshold < max_value" and "threshold < val"
  shows "\<exists>s. calculate_severity val threshold max_value = Inr s \<and> s \<noteq> NONE"
proof -
  define r where "r = (val - threshold) / (max_value - threshold)"
  have "calculate_severity val threshold max_value =
           Inr (if r < 0.25 then LOW else if r < 0.5 then MEDIUM
                else if r < 0.75 then HIGH else CRITICAL)"
    using assms by (intro calculate_severity_ratio [OF _ _ r_def]) simp_all
  then show ?thesis by simp
qed

lemma check_flood_result:
  "\<exists>evs. check_flood now loc c new = Inr (new @ evs) \<and>
     map event_kind evs = (if water_level c > 150 then [(FLOOD, loc)] else []) \<and>
     list_all (\<lambda>e. severity e \<noteq> NONE \<and> active e) evs"
proof (cases "water_level c > 150")
  case True
  then obtain s where "calculate_severity (water_level c) 150 200 = Inr s" and "s \<noteq> NONE"
    using calculate_severity_above [of 150 200 "water_level c"] by auto
  then show ?thesis
    using True by (simp add: check_flood_def event_kind_def DisasterEvent_init_def)
next
  case False
  then show ?thesis by (simp add: check_flood_def)
qed

lemma check_fire_result:
  "\<exists>evs. check_fire now loc c new = Inr (new @ evs) \<and>
     map event_kind evs = (if smoke_level c > 300 then [(FIRE, loc)] else []) \<and>
     list_all (\<lambda>e. severity e \<noteq> NONE \<and> active e) evs"
proof (cases "smoke_level c > 300")
  case True
  then obtain s where "calculate_severity (smoke_level c) 300 500 = Inr s" and "s \<noteq> NONE"
    using calculate_severity_above [of 300 500 "smoke_level c"] by auto
  then show ?thesis
    using True by (simp add: check_fire_def event_kind_def DisasterEvent_init_def)
next
  case False
  then show ?thesis by (simp add: check_fire_def)
qed

lemma check_earthquake_result:
  "\<exists>evs. check_earthquake now loc c new = Inr (new @ evs) \<and>
     map event_kind evs = (if seismic_activity c > 5.0 then [(EARTHQUAKE, loc)] else []) \<and>
     list_all (\<lambda>e. severity e \<noteq> NONE \<and> active e) evs"
proof (cases "seismic_activity c > 5")
  case True
  then obtain s where "calculate_severity (seismic_activity c) 5 10 = Inr s" and "s \<noteq> NONE"
    using calculate_severity_above [of 5 10 "seismic_activity c"] by auto
  then show ?thesis
    using True by (simp add: check_earthquake_def event_kind_def DisasterEvent_init_def)
next
  case False
  then show ?thesis by (simp add: check_earthquake_def)
qed

lemma detect_loop_result:
  "\<exists>evs. detect_loop now conds new = Inr (new @ evs) \<and>
     map event_kind evs = spec_detections conds \<and>
     list_all (\<lambda>e. severity e \<noteq> NONE \<and> active e) evs"
proof (induction conds arbitrary: new)
  case Nil
  then show ?case by (simp add: spec_detections_def)
next
  case (Cons lc conds)
  obtain loc c where lc: "lc = (loc, c)" by (cases lc)
  obtain e1 where e1: "check_flood now loc c new = Inr (new @ e1)"
      "map event_kind e1 = (if water_level c > 150 then [(FLOOD, loc)] else [])"
      "list_all (\<lambda>e. severity e \<noteq> NONE \<and> active e) e1"
    using check_flood_result by blast
  obtain e2 where e2: "check_fire now loc c (new @ e1) = Inr ((new @ e1) @ e2)"
      "map event_kind e2 = (if smoke_level c > 300 then [(FIRE, loc)] else [])"
      "list_all (\<lambda>e. severity e \<noteq> NONE \<and> active e) e2"
    using check_fire_result by blast
  obtain e3 where e3: "check_earthquake now loc c ((new @ e1) @ e2) = Inr (((new @ e1) @ e2) @ e3)"
      "map event_kind e3 = (if seismic_activity c > 5.0 then [(EARTHQUAKE, loc)] else [])"
      "list_all (\<lambda>e. severity e \<noteq> NONE \<and> active e) e3"
    using check_earthquake_result by blast
  obtain rest where rest: "detect_loop now conds (((new @ e1) @ e2) @ e3) = Inr ((((new @ e1) @ e2) @ e3) @ rest)"
      "map event_kind rest = spec_detections conds"
      "list_all (\<lambda>e. severity e \<noteq> NONE \<and> active e) rest"
    using Cons.IH by blast
  have "detect_loop now (lc # conds) new = Inr (new @ (e1 @ e2 @ e3 @ rest))"
    using e1(1) e2(1) e3(1) rest(1) by (simp add: lc)
  moreover have "map event_kind (e1 @ e2 @ e3 @ rest) = spec_detections (lc # conds)"
    using e1(2) e2(2) e3(2) rest(2) by (simp add: lc spec_detections_def spec_rules_def)
  moreover have "list_all (\<lambda>e. severity e \<noteq> NONE \<and> active e) (e1 @ e2 @ e3 @ rest)"
    using e1(3) e2(3) e3(3) rest(3) by simp
  ultimately show ?case by blast
qed

lemma detect_disasters_result:
  "\<exists>new. detect_disasters now env =
       Inr (new, env\<lparr>active_disasters := active_disasters env @ new,
                     event_history := event_history env @ new\<rparr>) \<and>
     map event_kind new = spec_detections (conditions env) \<and>
     list_all (\<lambda>e. severity e \<noteq> NONE \<and> active e) new"
proof -
  obtain new where "detect_loop now (conditions env) [] = Inr ([] @ new)"
      "map event_kind new = spec_detections (conditions env)"
      "list_all (\<lambda>e. severity e \<noteq> NONE \<and> active e) new"
    using detect_loop_result by blast
  then show ?thesis by (simp add: detect_disasters_def)
qed

lemma length_spec_rules: "length (spec_rules lc) \<le> 3"
  by (simp add: spec_rules_def)

text \<open>
  Claim C1: \<^verbatim>\<open>detect_disasters\<close> never raises; the events it returns are, by type
  and location, exactly those of the specification's rules (flood when the water level
  exceeds 150, fire when the smoke level exceeds 300, earthquake when the seismic
  activity exceeds 5.0, all strict), one per satisfied rule per location, locations in
  registry order and within a location flood, fire, earthquake, hence at most three per
  location; and the returned events are appended, in that order, to both the active list
  and the history list. Every returned event is active and has a severity other than
  \<open>NONE\<close>.
\<close>

theorem detect_disasters_events:
  "\<exists>new. detect_disasters now env =
       Inr (new, env\<lparr>active_disasters := active_disasters env @ new,
                     event_history := event_history env @ new\<rparr>) \<and>
     map event_kind new = spec_detections (conditions env) \<and>
     length new \<le> 3 * length (conditions env) \<and>
     list_all (\<lambda>e. severity e \<noteq> NONE \<and> active e) new"
proof -
  obtain new where new: "detect_disasters now env =
       Inr (new, env\<lparr>active_disasters := active_disasters env @ new,
                     event_history := event_history env @ new\<rparr>)"
     "map event_kind new = spec_detections (conditions env)"
     "list_all (\<lambda>e. severity e \<noteq> NONE \<and> active e) new"
    using detect_disasters_result by blast
  have "length (spec_detections conds) \<le> 3 * length conds" for conds
    using length_spec_rules by (induction conds) (auto simp add: spec_detections_def
      intro: order_trans [OF add_mono [OF length_spec_rules]])
  then have "length new \<le> 3 * length (conditions env)"
    using arg_cong [OF new(2), of length] by simp
  then show ?thesis using new by blast
qed

theorem detect_disasters_events_witness:
  "\<exists>new env'. detect_disasters (\<lambda>k. k)
       \<lparr>locations = [\<lparr>loc_x = 1, loc_y = 2, loc_name = ''Downtown''\<rparr>,
                     \<lparr>loc_x = 3, loc_y = 4, loc_name = ''Harbor District''\<rparr>],
        conditions =
          [(\<lparr>loc_x = 1, loc_y = 2, loc_name = ''Downtown''\<rparr>,
            \<lparr>cond_location = \<lparr>loc_x = 1, loc_y = 2, loc_name = ''Downtown''\<rparr>,
             temperature = 20, humidity = 50, wind_speed = 10, water_level = 151,
             smoke_level = 301, seismic_activity = 5.5\<rparr>),
           (\<lparr>loc_x = 3, loc_y = 4, loc_name = ''Harbor District''\<rparr>,
            \<lparr>cond_location = \<lparr>loc_x = 3, loc_y = 4, loc_name = ''Harbor District''\<rparr>,
             temperature = 20, humidity = 50, wind_speed = 10, water_level = 150,
             smoke_level = 500, seismic_activity = 5\<rparr>)],
        active_disasters = [], event_history = []\<rparr> = Inr (new, env') \<and>
     map event_kind new =
       [(FLOOD, \<lparr>loc_x = 1, loc_y = 2, loc_name = ''Downtown''\<rparr>),
        (FIRE, \<lparr>loc_x = 1, loc_y = 2, loc_name = ''Downtown''\<rparr>),
        (EARTHQUAKE, \<lparr>loc_x = 1, loc_y = 2, loc_name = ''Downtown''\<rparr>),
        (FIRE, \<lparr>loc_x = 3, loc_y = 4, loc_name = ''Harbor District''\<rparr>)] \<and>
     active_disasters env' = new \<and> event_history env' = new"
proof -
  let ?a = "\<lparr>loc_x = 1, loc_y = 2, loc_name = ''Downtown''\<rparr>"
  let ?b = "\<lparr>loc_x = 3, loc_y = 4, loc_name = ''Harbor District''\<rparr>"
  let ?env = "\<lparr>locations = [?a, ?b],
        conditions =
          [(?a, \<lparr>cond_location = ?a,
             temperature = 20, humidity = 50, wind_speed = 10, water_level = 151,
             smoke_level = 301, seismic_activity = 5.5\<rparr>),
           (?b, \<lparr>cond_location = ?b,
             temperature = 20, humidity = 50, wind_speed = 10, water_level = 150,
             smoke_level = 500, seismic_activity = 5\<rparr>)],
        active_disasters = [], event_history = []\<rparr>"
  obtain new where new: "detect_disasters (\<lambda>k. k) ?env =
       Inr (new, ?env\<lparr>active_disasters := active_disasters ?env @ new,
                      event_history := event_history ?env @ new\<rparr>)"
      "map event_kind new = spec_detections (conditions ?env)"
    using detect_disasters_events [of "\<lambda>k. k" ?env] by blast
  have "spec_detections (conditions ?env) = [(FLOOD, ?a), (FIRE, ?a), (EARTHQUAKE, ?a), (FIRE, ?b)]"
    by (simp add: spec_detections_def spec_rules_def)
  then have "map event_kind new = [(FLOOD, ?a), (FIRE, ?a), (EARTHQUAKE, ?a), (FIRE, ?b)]"
    using new(2) by simp
  then show ?thesis
    using new(1) by (intro exI [of _ new]
        exI [of _ "?env\<lparr>active_disasters := active_disasters ?env @ new,
                      event_history := event_history ?env @ new\<rparr>"]) simp
qed

section \<open>Properties of the event store\<close>

lemma update_conditions_store:
  "active_disasters (update_conditions rnd env) = active_disasters env"
  "event_history (update_conditions rnd env) = event_history env"
  "locations (update_conditions rnd env) = locations env"
  by (simp_all add: update_conditions_def)

lemma length_update_all: "length (update_all rnd conds) = length conds"
  by (induction rnd conds rule: update_all.induct) auto

lemma choice_nonempty: "seq \<noteq> [] \<Longrightarrow> \<exists>a. choice r seq = Inr a \<and> a \<in> set seq"
  by (simp add: choice_def)

lemma choice_empty: "choice r [] = Inl IndexError"
  by (simp add: choice_def)

lemma simulate_random_disaster_empty:
  "locations env = [] \<Longrightarrow> simulate_random_disaster bits now env = Inl IndexError"
proof -
  assume a: "locations env = []"
  obtain d where "choice (bits 0) [FLOOD, EARTHQUAKE, FIRE] = Inr d"
    using choice_nonempty [of "[FLOOD, EARTHQUAKE, FIRE]"] by auto
  moreover obtain s where "choice (bits 1) [LOW, MEDIUM, HIGH, CRITICAL] = Inr s"
    using choice_nonempty [of "[LOW, MEDIUM, HIGH, CRITICAL]"] by auto
  ultimately show ?thesis
    using a by (simp add: simulate_random_disaster_def choice_empty)
qed

lemma simulate_random_disaster_result:
  assumes "locations env \<noteq> []"
  shows "\<exists>event. simulate_random_disaster bits now env =
           Inr (event, env\<lparr>active_disasters := active_disasters env @ [event],
                            event_history := event_history env @ [event]\<rparr>) \<and>
           location event \<in> set (locations env) \<and>
           disaster_type event \<in> {FLOOD, EARTHQUAKE, FIRE} \<and>
           severity event \<in> {LOW, MEDIUM, HIGH, CRITICAL}"
proof -
  obtain d where d: "choice (bits 0) [FLOOD, EARTHQUAKE, FIRE] = Inr d"
      "d \<in> set [FLOOD, EARTHQUAKE, FIRE]"
    using choice_nonempty [of "[FLOOD, EARTHQUAKE, FIRE]"] by auto
  obtain s where s: "choice (bits 1) [LOW, MEDIUM, HIGH, CRITICAL] = Inr s"
      "s \<in> set [LOW, MEDIUM, HIGH, CRITICAL]"
    using choice_nonempty [of "[LOW, MEDIUM, HIGH, CRITICAL]"] by auto
  obtain l where l: "choice (bits 2) (locations env) = Inr l" "l \<in> set (locations env)"
    using choice_nonempty [OF assms] by auto
  show ?thesis
    using d s l by (simp add: simulate_random_disaster_def DisasterEvent_init_def Let_def)
qed

lemma apply_op_appends:
  "\<exists>evs. active_disasters (apply_op env op) = active_disasters env @ evs \<and>
         event_history (apply_op env op) = event_history env @ evs"
proof (cases op)
  case (UpdateConditions rnd)
  then show ?thesis by (simp add: update_conditions_store)
next
  case (DetectDisasters now)
  obtain new where "detect_disasters now env =
       Inr (new, env\<lparr>active_disasters := active_disasters env @ new,
                     event_history := event_history env @ new\<rparr>)"
    using detect_disasters_result by blast
  then show ?thesis using DetectDisasters by simp
next
  case (SimulateRandomDisaster bits now)
  show ?thesis
  proof (cases "locations env = []")
    case True
    then show ?thesis
      using SimulateRandomDisaster by (simp add: simulate_random_disaster_empty)
  next
    case False
    then obtain event where "simulate_random_disaster bits now env =
           Inr (event, env\<lparr>active_disasters := active_disasters env @ [event],
                            event_history := event_history env @ [event]\<rparr>)"
      using simulate_random_disaster_result by blast
    then show ?thesis using SimulateRandomDisaster by simp
  qed
qed

lemma run_ops_appends:
  "\<exists>evs. active_disasters (run_ops env ops) = active_disasters env @ evs \<and>
         event_history (run_ops env ops) = event_history env @ evs"
proof (induction ops arbitrary: env)
  case Nil
  then show ?case by (simp add: run_ops_def)
next
  case (Cons op ops)
  obtain e1 where e1: "active_disasters (apply_op env op) = active_disasters env @ e1"
      "event_history (apply_op env op) = event_history env @ e1"
    using apply_op_appends by blast
  obtain e2 where e2:
      "active_disasters (run_ops (apply_op env op) ops) = active_disasters (apply_op env op) @ e2"
      "event_history (run_ops (apply_op env op) ops) = event_history (apply_op env op) @ e2"
    using Cons.IH by blast
  have "active_disasters (run_ops env (op # ops)) = active_disasters env @ (e1 @ e2)"
    and "event_history (run_ops env (op # ops)) = event_history env @ (e1 @ e2)"
    using e1 e2 by (simp_all add: run_ops_def)
  then show ?case by blast
qed

lemma init_store_empty:
  "DisasterEnvironment_init rnd n = Inr env \<Longrightarrow>
     active_disasters env = [] \<and> event_history env = []"
  by (auto simp add: DisasterEnvironment_init_def Let_def)

text \<open>
  Claim C6: over every sequence of operations, from any state, the active list and the
  history list before the sequence are prefixes of the lists after it, so every element
  stays at its position and neither list shrinks; and the history list contains every
  element of the active list at every state reached from one where it did, in
  particular at every state reached from a newly constructed environment.
\<close>

theorem event_store_append_only:
  "prefix (active_disasters env) (active_disasters (run_ops env ops)) \<and>
   prefix (event_history env) (event_history (run_ops env ops)) \<and>
   length (active_disasters env) \<le> length (active_disasters (run_ops env ops)) \<and>
   length (event_history env) \<le> length (event_history (run_ops env ops)) \<and>
   (set (active_disasters env) \<subseteq> set (event_history env) \<longrightarrow>
      set (active_disasters (run_ops env ops)) \<subseteq> set (event_history (run_ops env ops))) \<and>
   (DisasterEnvironment_init rnd n = Inr env \<longrightarrow>
      set (active_disasters (run_ops env ops)) \<subseteq> set (event_history (run_ops env ops)))"
proof -
  obtain evs where evs: "active_disasters (run_ops env ops) = active_disasters env @ evs"
      "event_history (run_ops env ops) = event_history env @ evs"
    using run_ops_appends by blast
  show ?thesis
    unfolding evs using init_store_empty [of rnd n env] by auto
qed

theorem event_store_append_only_witness:
  "\<exists>env. DisasterEnvironment_init (\<lambda>k. 3 / 5) 1 = Inr env \<and>
     length (active_disasters
       (run_ops env [DetectDisasters (\<lambda>k. k), SimulateRandomDisaster (\<lambda>k. k) 9])) = 2 \<and>
     prefix (active_disasters (run_ops env [DetectDisasters (\<lambda>k. k)]))
       (active_disasters (run_ops (run_ops env [DetectDisasters (\<lambda>k. k)])
          [SimulateRandomDisaster (\<lambda>k. k) 9])) \<and>
     set (active_disasters
       (run_ops env [DetectDisasters (\<lambda>k. k), SimulateRandomDisaster (\<lambda>k. k) 9]))
       \<subseteq> set (event_history
       (run_ops env [DetectDisasters (\<lambda>k. k), SimulateRandomDisaster (\<lambda>k. k) 9]))"
proof -
  let ?loc = "\<lparr>loc_x = 60, loc_y = 60, loc_name = ''Downtown''\<rparr>"
  let ?env = "\<lparr>locations = [?loc],
      conditions = [(?loc, \<lparr>cond_location = ?loc, temperature = 27, humidity = 66,
        wind_speed = 30, water_level = 60, smoke_level = 60, seismic_activity = 6\<rparr>)],
      active_disasters = [], event_history = []\<rparr>"
  have init: "DisasterEnvironment_init (\<lambda>k. 3 / 5) 1 = Inr ?env"
    by (simp add: DisasterEnvironment_init_def generate_locations_def location_names_def
        Let_def uniform_def advance_def EnvironmentalConditions_init_def)
  have len: "length (active_disasters
       (run_ops ?env [DetectDisasters (\<lambda>k. k), SimulateRandomDisaster (\<lambda>k. k) 9])) = 2"
    by code_simp
  have pre: "prefix (active_disasters (run_ops ?env [DetectDisasters (\<lambda>k. k)]))
       (active_disasters (run_ops (run_ops ?env [DetectDisasters (\<lambda>k. k)])
          [SimulateRandomDisaster (\<lambda>k. k) 9]))"
    using event_store_append_only [of "run_ops ?env [DetectDisasters (\<lambda>k. k)]"
        "[SimulateRandomDisaster (\<lambda>k. k) 9]"]
    by (rule conjunct1)
  have sub: "set (active_disasters
       (run_ops ?env [DetectDisasters (\<lambda>k. k), SimulateRandomDisaster (\<lambda>k. k) 9]))
       \<subseteq> set (event_history
       (run_ops ?env [DetectDisasters (\<lambda>k. k), SimulateRandomDisaster (\<lambda>k. k) 9]))"
    using init event_store_append_only [of ?env
        "[DetectDisasters (\<lambda>k. k), SimulateRandomDisaster (\<lambda>k. k) 9]" "\<lambda>k. 3 / 5" 1]
    by blast
  show ?thesis
    by (rule exI [of _ ?env]) (intro conjI init len pre sub)
qed

text \<open>
  Claim C9: every sequence of operations appends the same events to both lists, so the
  two lists are equal at every state reached from one where they were equal, in
  particular at every state reached from a newly constructed environment.
\<close>

theorem event_store_lists_equal:
  "(\<exists>evs. active_disasters (run_ops env ops) = active_disasters env @ evs \<and>
          event_history (run_ops env ops) = event_history env @ evs) \<and>
   (active_disasters env = event_history env \<longrightarrow>
      active_disasters (run_ops env ops) = event_history (run_ops env ops)) \<and>
   (DisasterEnvironment_init rnd n = Inr env \<longrightarrow>
      active_disasters (run_ops env ops) = event_history (run_ops env ops))"
proof -
  obtain evs where evs: "active_disasters (run_ops env ops) = active_disasters env @ evs"
      "event_history (run_ops env ops) = event_history env @ evs"
    using run_ops_appends by blast
  show ?thesis
    unfolding evs using init_store_empty [of rnd n env] by auto
qed

theorem event_store_lists_equal_witness:
  "\<exists>env. DisasterEnvironment_init (\<lambda>k. 3 / 5) 1 = Inr env \<and>
     length (event_history
       (run_ops env [SimulateRandomDisaster (\<lambda>k. k) 4, DetectDisasters (\<lambda>k. k)])) = 2 \<and>
     active_disasters
       (run_ops env [SimulateRandomDisaster (\<lambda>k. k) 4, DetectDisasters (\<lambda>k. k)]) =
     event_history
       (run_ops env [SimulateRandomDisaster (\<lambda>k. k) 4, DetectDisasters (\<lambda>k. k)])"
proof -
  let ?loc = "\<lparr>loc_x = 60, loc_y = 60, loc_name = ''Downtown''\<rparr>"
  let ?env = "\<lparr>locations = [?loc],
      conditions = [(?loc, \<lparr>cond_location = ?loc, temperature = 27, humidity = 66,
        wind_speed = 30, water_level = 60, smoke_level = 60, seismic_activity = 6\<rparr>)],
      active_disasters = [], event_history = []\<rparr>"
  have init: "DisasterEnvironment_init (\<lambda>k. 3 / 5) 1 = Inr ?env"
    by (simp add: DisasterEnvironment_init_def generate_locations_def location_names_def
        Let_def uniform_def advance_def EnvironmentalConditions_init_def)
  have len: "length (event_history
       (run_ops ?env [SimulateRandomDisaster (\<lambda>k. k) 4, DetectDisasters (\<lambda>k. k)])) = 2"
    by code_simp
  have eq: "active_disasters
       (run_ops ?env [SimulateRandomDisaster (\<lambda>k. k) 4, DetectDisasters (\<lambda>k. k)]) =
     event_history
       (run_ops ?env [SimulateRandomDisaster (\<lambda>k. k) 4, DetectDisasters (\<lambda>k. k)])"
    using init event_store_lists_equal [of ?env
        "[SimulateRandomDisaster (\<lambda>k. k) 4, DetectDisasters (\<lambda>k. k)]" "\<lambda>k. 3 / 5" 1]
    by blast
  show ?thesis
    by (rule exI [of _ ?env]) (intro conjI init len eq)
qed

section \<open>Properties of the monitoring tick\<close>

lemma log_disaster_event_fields:
  "environment (log_disaster_event agent ev) = environment agent"
  "simulate_disasters (log_disaster_event agent ev) = simulate_disasters agent"
  "coordinator_jid (log_disaster_event agent ev) = coordinator_jid agent"
  "length (detected_events (log_disaster_event agent ev)) = Suc (length (detected_events agent))"
  by (simp_all add: log_disaster_event_def)

lemma foldl_log_disaster_event_fields:
  "environment (foldl log_disaster_event agent evs) = environment agent \<and>
   simulate_disasters (foldl log_disaster_event agent evs) = simulate_disasters agent \<and>
   coordinator_jid (foldl log_disaster_event agent evs) = coordinator_jid agent \<and>
   length (detected_events (foldl log_disaster_event agent evs)) =
     length (detected_events agent) + length evs"
  by (induction evs arbitrary: agent) (simp_all add: log_disaster_event_fields)

text \<open>The parts of a tick's result, given what detection returned in it.\<close>

lemma run_projections:
  assumes "detect_disasters now (update_conditions rnd (environment agent)) = Inr (new, env2)"
  shows "detected (run rnd now bits agent) = new"
    and "inject_called (run rnd now bits agent) \<longleftrightarrow>
           simulate_disasters agent \<and> length (active_disasters env2) < 3 \<and>
           rnd (6 * length (conditions (environment agent))) < 0.1"
    and "\<not> inject_called (run rnd now bits agent) \<Longrightarrow>
           environment (agent_after (run rnd now bits agent)) = env2 \<and>
           raised (run rnd now bits agent) = None"
    and "inject_called (run rnd now bits agent) \<Longrightarrow>
           (case simulate_random_disaster bits (now (length new)) env2 of
              Inl e \<Rightarrow> environment (agent_after (run rnd now bits agent)) = env2 \<and>
                       raised (run rnd now bits agent) = Some e
            | Inr (simulated, env3) \<Rightarrow>
                environment (agent_after (run rnd now bits agent)) = env3 \<and>
                raised (run rnd now bits agent) = None)"
  using assms
  by (auto simp add: run_def Let_def foldl_log_disaster_event_fields log_disaster_event_fields
      split: sum.splits prod.splits if_splits)

text \<open>
  Claim C8: a tick calls \<^verbatim>\<open>simulate_random_disaster\<close> exactly when stimulus mode is
  on, the active list, detection of this tick included, holds fewer than 3 events, and
  the draw of the tick is below 0.1. So a tick with stimulus mode off, or with 3 or more
  active events, never calls it; and a tick that does not call it leaves both lists
  extended by the detected events only.
\<close>

theorem injection_gated:
  "(inject_called (run rnd now bits agent) \<longleftrightarrow>
      simulate_disasters agent \<and>
      length (active_disasters (environment agent)) + length (detected (run rnd now bits agent)) < 3 \<and>
      rnd (6 * length (conditions (environment agent))) < 0.1) \<and>
   (\<not> simulate_disasters agent \<longrightarrow> \<not> inject_called (run rnd now bits agent)) \<and>
   (3 \<le> length (active_disasters (environment agent)) \<longrightarrow>
      \<not> inject_called (run rnd now bits agent)) \<and>
   (\<not> inject_called (run rnd now bits agent) \<longrightarrow>
      active_disasters (environment (agent_after (run rnd now bits agent))) =
        active_disasters (environment agent) @ detected (run rnd now bits agent) \<and>
      event_history (environment (agent_after (run rnd now bits agent))) =
        event_history (environment agent) @ detected (run rnd now bits agent))"
proof -
  define env1 where "env1 = update_conditions rnd (environment agent)"
  obtain new where new: "detect_disasters now env1 =
       Inr (new, env1\<lparr>active_disasters := active_disasters env1 @ new,
                      event_history := event_history env1 @ new\<rparr>)"
    using detect_disasters_result by blast
  define env2 where "env2 = env1\<lparr>active_disasters := active_disasters env1 @ new,
                      event_history := event_history env1 @ new\<rparr>"
  define res where "res = run rnd now bits agent"
  have det: "detect_disasters now (update_conditions rnd (environment agent)) = Inr (new, env2)"
    using new by (simp add: env1_def env2_def)
  have act: "active_disasters env2 = active_disasters (environment agent) @ new"
    and his: "event_history env2 = event_history (environment agent) @ new"
    by (simp_all add: env2_def env1_def update_conditions_store)
  have d: "detected res = new"
    unfolding res_def using det by (rule run_projections(1))
  have g: "inject_called res \<longleftrightarrow>
           simulate_disasters agent \<and> length (active_disasters env2) < 3 \<and>
           rnd (6 * length (conditions (environment agent))) < 0.1"
    unfolding res_def using det by (rule run_projections(2))
  have n: "\<not> inject_called res \<Longrightarrow> environment (agent_after res) = env2"
    unfolding res_def using run_projections(3) [OF det] by blast
  have "(inject_called res \<longleftrightarrow>
      simulate_disasters agent \<and>
      length (active_disasters (environment agent)) + length (detected res) < 3 \<and>
      rnd (6 * length (conditions (environment agent))) < 0.1) \<and>
   (\<not> simulate_disasters agent \<longrightarrow> \<not> inject_called res) \<and>
   (3 \<le> length (active_disasters (environment agent)) \<longrightarrow> \<not> inject_called res) \<and>
   (\<not> inject_called res \<longrightarrow>
      active_disasters (environment (agent_after res)) =
        active_disasters (environment agent) @ detected res \<and>
      event_history (environment (agent_after res)) =
        event_history (environment agent) @ detected res)"
    using g n by (auto simp add: d act his)
  then show ?thesis unfolding res_def .
qed

theorem injection_gated_witness:
  "\<exists>agent. SensorAgent_init (\<lambda>k. 1 / 2) ''sensor@host'' 1 5 None True = Inr agent \<and>
     inject_called (run (\<lambda>k. 1 / 20) (\<lambda>k. k) (\<lambda>k. k) agent) \<and>
     \<not> inject_called (run (\<lambda>k. 1 / 5) (\<lambda>k. k) (\<lambda>k. k) agent) \<and>
     \<not> inject_called (run (\<lambda>k. 1 / 20) (\<lambda>k. k) (\<lambda>k. k) (agent\<lparr>simulate_disasters := False\<rparr>))"
proof -
  let ?loc = "\<lparr>loc_x = 50, loc_y = 50, loc_name = ''Downtown''\<rparr>"
  let ?env = "\<lparr>locations = [?loc],
      conditions = [(?loc, \<lparr>cond_location = ?loc, temperature = 25, humidity = 60,
        wind_speed = 25, water_level = 50, smoke_level = 50, seismic_activity = 5\<rparr>)],
      active_disasters = [], event_history = []\<rparr>"
  let ?agent = "\<lparr>jid = ''sensor@host'', num_locations = 1, monitoring_interval = 5,
      coordinator_jid = None, simulate_disasters = True, environment = ?env,
      detected_events = []\<rparr>"
  have init: "SensorAgent_init (\<lambda>k. 1 / 2) ''sensor@host'' 1 5 None True = Inr ?agent"
    by (simp add: SensorAgent_init_def DisasterEnvironment_init_def generate_locations_def
        location_names_def Let_def uniform_def advance_def EnvironmentalConditions_init_def)
  have d: "detected (run (\<lambda>k. 1 / 20) (\<lambda>k. k) (\<lambda>k. k) ?agent) = []"
    by code_simp
  have a: "inject_called (run (\<lambda>k. 1 / 20) (\<lambda>k. k) (\<lambda>k. k) ?agent)"
    using injection_gated [of "\<lambda>k. 1 / 20" "\<lambda>k. k" "\<lambda>k. k" ?agent] by (simp add: d)
  have b: "\<not> inject_called (run (\<lambda>k. 1 / 5) (\<lambda>k. k) (\<lambda>k. k) ?agent)"
    using injection_gated [of "\<lambda>k. 1 / 5" "\<lambda>k. k" "\<lambda>k. k" ?agent] by simp
  have c: "\<not> inject_called (run (\<lambda>k. 1 / 20) (\<lambda>k. k) (\<lambda>k. k)
      (?agent\<lparr>simulate_disasters := False\<rparr>))"
    using injection_gated [of "\<lambda>k. 1 / 20" "\<lambda>k. k" "\<lambda>k. k" "?agent\<lparr>simulate_disasters := False\<rparr>"]
    by simp
  show ?thesis
    by (rule exI [of _ ?agent]) (intro conjI init a b c)
qed

end
